theory Spec2Isabelle
  imports Main
begin

section \<open>Values and style functions\<close>

text \<open>
  Strings are lists of code units, here restricted to the range of \<^typ>\<open>char\<close>.
  A style function is a function object of
  \<^verbatim>\<open>type StyleFn = ((text?: string) => string) & { toString(): string }\<close>:
  its call, where the argument \<^term>\<open>None :: string option\<close> is the call with no argument
  (or with \<^verbatim>\<open>undefined\<close>), and its string conversion.
\<close>

datatype StyleFn = StyleFn (call: "string option \<Rightarrow> string") (toString: string)

text \<open>
  \<^term>\<open>call f None\<close> is \<^verbatim>\<open>f()\<close>, \<^term>\<open>call f (Some t)\<close> is \<^verbatim>\<open>f(t)\<close>, and
  \<^term>\<open>toString f\<close> is the string that the function's own \<^verbatim>\<open>toString\<close> returns.

  The arguments of \<^verbatim>\<open>log\<close> are typed \<^verbatim>\<open>any\<close>. The model covers the primitive values
  \<^verbatim>\<open>undefined\<close>, \<^verbatim>\<open>null\<close>, booleans and strings, and callables of type \<^typ>\<open>StyleFn\<close>
  (\<^verbatim>\<open>typeof val === 'function'\<close>). Numbers, symbols and other objects are outside it.
\<close>

datatype jsval =
    JUndefined
  | JNull
  | JBool bool
  | JStr string
  | JFun StyleFn

text \<open>\<^verbatim>\<open>String(val)\<close>.\<close>

fun String_conv :: "jsval \<Rightarrow> string" where
  "String_conv JUndefined = ''undefined''"
| "String_conv JNull = ''null''"
| "String_conv (JBool b) = (if b then ''true'' else ''false'')"
| "String_conv (JStr s) = s"
| "String_conv (JFun f) = toString f"

text \<open>
  \<^verbatim>\<open>ANSI.STYLE.reset\<close> comes from \<^verbatim>\<open>util/ansi.js\<close>; the functions that append it take it
  as the parameter \<open>reset\<close>.

  \<^verbatim>\<open>const fn = (text?: string): string =>
      text === undefined ? code : `${code}${text}${ANSI.STYLE.reset}`;
  fn.toString = () => code;\<close>
\<close>

definition makeStyle :: "string \<Rightarrow> string \<Rightarrow> StyleFn" where
  "makeStyle reset code =
     StyleFn (\<lambda>text. case text of None \<Rightarrow> code | Some t \<Rightarrow> code @ t @ reset) code"

text \<open>
  \<^verbatim>\<open>const fn = (text?: string): string => composer(text ?? '');
  fn.toString = () => fn('');\<close>
\<close>

definition style :: "(string \<Rightarrow> string) \<Rightarrow> StyleFn" where
  "style composer =
     (let fn = (\<lambda>text. composer (case text of None \<Rightarrow> [] | Some t \<Rightarrow> t))
      in StyleFn fn (fn (Some [])))"

section \<open>Rendering\<close>

text \<open>
  The first argument of \<^verbatim>\<open>log\<close> is either the literal parts of a tagged template
  (\<^verbatim>\<open>Array.isArray(strings) && 'raw' in strings\<close>) or an ordinary value.
\<close>

datatype first_arg =
    TemplateStrings "string list"
  | Plain jsval

text \<open>
  \<^verbatim>\<open>values[i - 1]\<close>: reading a JavaScript array at an index that is negative or past the
  end yields \<^verbatim>\<open>undefined\<close>.
\<close>

definition index_js :: "jsval list \<Rightarrow> int \<Rightarrow> jsval" where
  "index_js values i =
     (if 0 \<le> i \<and> i < int (length values) then values ! nat i else JUndefined)"

text \<open>
  \<^verbatim>\<open>const part = val !== undefined
      ? (typeof val === 'function' ? val() : String(val))
      : '';\<close>
\<close>

definition template_part :: "jsval \<Rightarrow> string" where
  "template_part val =
     (if val \<noteq> JUndefined
      then (case val of JFun f \<Rightarrow> call f None | _ \<Rightarrow> String_conv val)
      else [])"

text \<open>
  \<^verbatim>\<open>strings.reduce((acc, str, i) => { ...; return acc + part + str; }, '')\<close>:
  the loop of \<^verbatim>\<open>reduce\<close>, with the index \<open>i\<close> and the accumulator \<open>acc\<close>.
\<close>

fun template_reduce :: "jsval list \<Rightarrow> int \<Rightarrow> string \<Rightarrow> string list \<Rightarrow> string" where
  "template_reduce values i acc [] = acc"
| "template_reduce values i acc (str # rest) =
     template_reduce values (i + 1) (acc @ template_part (index_js values (i - 1)) @ str) rest"

text \<open>\<^verbatim>\<open>(val: any) => typeof val === 'function' ? val() : String(val)\<close>\<close>

definition plain_part :: "jsval \<Rightarrow> string" where
  "plain_part val = (case val of JFun f \<Rightarrow> call f None | _ \<Rightarrow> String_conv val)"

text \<open>\<^verbatim>\<open>Array.prototype.join\<close> on an array of strings.\<close>

fun join :: "string \<Rightarrow> string list \<Rightarrow> string" where
  "join separator [] = []"
| "join separator [x] = x"
| "join separator (x # y # ys) = x @ separator @ join separator (y # ys)"

text \<open>
  \<^verbatim>\<open>#render(strings, ...values)\<close>; \<open>autoSpaceBetween\<close> is the truth value of
  \<^verbatim>\<open>this.options.autoSpaceBetween\<close>.
\<close>

definition render :: "bool \<Rightarrow> first_arg \<Rightarrow> jsval list \<Rightarrow> string" where
  "render autoSpaceBetween strings values =
     (case strings of
        TemplateStrings parts \<Rightarrow> template_reduce values 0 [] parts
      | Plain v \<Rightarrow>
          (let separator = (if autoSpaceBetween then '' '' else [])
           in join separator (map plain_part (v # values))))"

section \<open>Configuration\<close>

text \<open>
  \<^verbatim>\<open>type ComfyLoggerExternalLoggingOptions\<close>. An optional property is an option: \<^term>\<open>None\<close>
  is absent or \<^verbatim>\<open>undefined\<close>. The \<^verbatim>\<open>onError\<close> callback is left out: \<^verbatim>\<open>log\<close> destructures
  only \<^verbatim>\<open>url\<close>, \<^verbatim>\<open>headers\<close> and \<^verbatim>\<open>method\<close>. The field \<open>http_method\<close> is the
  property \<^verbatim>\<open>method\<close>.
\<close>

record ComfyLoggerExternalLoggingOptions =
  url :: string
  headers :: "(string \<rightharpoonup> string) option"
  http_method :: "string option"

text \<open>
  \<^verbatim>\<open>type LoggerRuntimeConfig\<close>, as the object is at run time: reading any property can give
  \<^verbatim>\<open>undefined\<close> (\<^term>\<open>None\<close>), since \<^verbatim>\<open>configure\<close> takes a \<^verbatim>\<open>Partial\<close> of it.
\<close>

record LoggerRuntimeConfig =
  autoSpaceBetween :: "bool option"
  timestampFormat :: "string option"
  trimBefore :: "string option"
  trimAfter :: "string option"
  externalLogging :: "ComfyLoggerExternalLoggingOptions option"
  console :: "bool option"
  tags :: "string list option"
  logErrorsToConsole :: "bool option"

text \<open>
  \<^verbatim>\<open>Partial<LoggerRuntimeConfig>\<close>, the argument of \<^verbatim>\<open>configure\<close>: for each property,
  \<^term>\<open>None\<close> when the object does not mention it, and \<^term>\<open>Some v\<close> when it does, with the
  value \<open>v\<close> (which may itself be \<^verbatim>\<open>undefined\<close>).
\<close>

record PartialLoggerRuntimeConfig =
  p_autoSpaceBetween :: "bool option option"
  p_timestampFormat :: "string option option"
  p_trimBefore :: "string option option"
  p_trimAfter :: "string option option"
  p_externalLogging :: "ComfyLoggerExternalLoggingOptions option option"
  p_console :: "bool option option"
  p_tags :: "string list option option"
  p_logErrorsToConsole :: "bool option option"

text \<open>
  One property of \<^verbatim>\<open>{ ...this.options, ...options }\<close>: the spread of \<^verbatim>\<open>options\<close> comes
  last, so its value stands when it mentions the property.
\<close>

definition spread :: "'a \<Rightarrow> 'a option \<Rightarrow> 'a" where
  "spread old new = (case new of None \<Rightarrow> old | Some v \<Rightarrow> v)"

text \<open>\<^verbatim>\<open>configure(options) { this.options = { ...this.options, ...options }; }\<close>\<close>

definition configure :: "LoggerRuntimeConfig \<Rightarrow> PartialLoggerRuntimeConfig \<Rightarrow> LoggerRuntimeConfig" where
  "configure this_options options =
     \<lparr> autoSpaceBetween = spread (autoSpaceBetween this_options) (p_autoSpaceBetween options),
       timestampFormat = spread (timestampFormat this_options) (p_timestampFormat options),
       trimBefore = spread (trimBefore this_options) (p_trimBefore options),
       trimAfter = spread (trimAfter this_options) (p_trimAfter options),
       externalLogging = spread (externalLogging this_options) (p_externalLogging options),
       console = spread (console this_options) (p_console options),
       tags = spread (tags this_options) (p_tags options),
       logErrorsToConsole = spread (logErrorsToConsole this_options) (p_logErrorsToConsole options) \<rparr>"

text \<open>
  The initial \<^verbatim>\<open>options\<close> of a logger, from \<^verbatim>\<open>sharedGlobalConfig\<close>; the initialiser does not
  copy \<^verbatim>\<open>trimBefore\<close> and \<^verbatim>\<open>trimAfter\<close>.
\<close>

definition initial_options :: LoggerRuntimeConfig where
  "initial_options =
     \<lparr> autoSpaceBetween = Some True,
       timestampFormat = Some ''HH:mm:ss'',
       trimBefore = None,
       trimAfter = None,
       externalLogging = None,
       console = Some True,
       tags = Some [],
       logErrorsToConsole = Some True \<rparr>"

text \<open>An object that mentions no property.\<close>

definition no_options :: PartialLoggerRuntimeConfig where
  "no_options =
     \<lparr> p_autoSpaceBetween = None, p_timestampFormat = None, p_trimBefore = None,
       p_trimAfter = None, p_externalLogging = None, p_console = None, p_tags = None,
       p_logErrorsToConsole = None \<rparr>"

text \<open>Truthiness of an optional boolean and of an optional string.\<close>

definition truthy_bool :: "bool option \<Rightarrow> bool" where
  "truthy_bool b = (case b of None \<Rightarrow> False | Some v \<Rightarrow> v)"

definition truthy_string :: "string option \<Rightarrow> bool" where
  "truthy_string s = (case s of None \<Rightarrow> False | Some v \<Rightarrow> v \<noteq> [])"

section \<open>Tag filter\<close>

text \<open>\<^verbatim>\<open>__internalGlobalConfig.filter\<close>, the process-wide registry.\<close>

record tag_filter =
  whitelistTags :: "string set"
  blacklistTags :: "string set"

definition isTagBlacklisted :: "tag_filter \<Rightarrow> string \<Rightarrow> bool" where
  "isTagBlacklisted g tag = (tag \<in> blacklistTags g)"

definition isTagWhitelisted :: "tag_filter \<Rightarrow> string \<Rightarrow> bool" where
  "isTagWhitelisted g tag = (tag \<in> whitelistTags g)"

text \<open>
  The loop of \<^verbatim>\<open>#shouldLog\<close>:
  \<^verbatim>\<open>for (const tag of tags) {
      let whitelisted = false;
      if (blacklist(tag)) {
          if (!whitelist(tag)) { whitelisted = true; }
          if (!whitelisted) { return false; }
      }
  }
  return true;\<close>
\<close>

fun shouldLog_loop :: "tag_filter \<Rightarrow> string list \<Rightarrow> bool" where
  "shouldLog_loop g [] = True"
| "shouldLog_loop g (tag # rest) =
     (let whitelisted = False in
      if isTagBlacklisted g tag then
        (let whitelisted = (if \<not> isTagWhitelisted g tag then True else whitelisted) in
         if \<not> whitelisted then False else shouldLog_loop g rest)
      else shouldLog_loop g rest)"

text \<open>\<^verbatim>\<open>const tags = this.options.tags ?? [];\<close>\<close>

definition shouldLog :: "tag_filter \<Rightarrow> LoggerRuntimeConfig \<Rightarrow> bool" where
  "shouldLog g this_options =
     shouldLog_loop g (case tags this_options of None \<Rightarrow> [] | Some ts \<Rightarrow> ts)"

section \<open>Removing escape sequences\<close>

text \<open>
  \<^verbatim>\<open>msg.replace(/\x1b(\[[0-9;]*m|]8;;.*?[\u0007]|]8;;[\u0007])/g, '')\<close>.
  Every match starts with the escape character; the three alternatives are tried in order
  on the text after it, and each returns the text after the match.
\<close>

definition ESC :: char where
  "ESC = CHR 0x1B"

definition BEL :: char where
  "BEL = CHR 0x07"

text \<open>The class \<^verbatim>\<open>[0-9;]\<close>.\<close>

definition is_param :: "char \<Rightarrow> bool" where
  "is_param c = (c \<in> set ''0123456789;'')"

text \<open>
  A line terminator, which \<^verbatim>\<open>.\<close> does not match (the pattern has no \<^verbatim>\<open>s\<close> flag).
  U+2028 and U+2029 are outside the range of \<^typ>\<open>char\<close>.
\<close>

definition is_line_terminator :: "char \<Rightarrow> bool" where
  "is_line_terminator c = (c = CHR 0x0A \<or> c = CHR 0x0D)"

text \<open>
  \<^verbatim>\<open>\[[0-9;]*m\<close>: the star is greedy, and giving back a character cannot help, since
  \<^verbatim>\<open>m\<close> is not in the class.
\<close>

fun match_csi :: "string \<Rightarrow> string option" where
  "match_csi [] = None"
| "match_csi (c # cs) =
     (if c = CHR ''[''
      then (case dropWhile is_param cs of
              [] \<Rightarrow> None
            | m # rest \<Rightarrow> if m = CHR ''m'' then Some rest else None)
      else None)"

text \<open>
  \<^verbatim>\<open>.*?[\u0007]\<close>: the star is lazy, so at each position the terminator is tried first,
  and one more character is taken only when it is not the terminator.
\<close>

fun lazy_until_BEL :: "string \<Rightarrow> string option" where
  "lazy_until_BEL [] = None"
| "lazy_until_BEL (c # cs) =
     (if c = BEL then Some cs
      else if is_line_terminator c then None
      else lazy_until_BEL cs)"

text \<open>\<^verbatim>\<open>]8;;.*?[\u0007]\<close>\<close>

fun match_osc8 :: "string \<Rightarrow> string option" where
  "match_osc8 (a # b # c # d # cs) =
     (if a = CHR '']'' \<and> b = CHR ''8'' \<and> c = CHR '';'' \<and> d = CHR '';''
      then lazy_until_BEL cs else None)"
| "match_osc8 _ = None"

text \<open>\<^verbatim>\<open>]8;;[\u0007]\<close>\<close>

fun match_osc8_close :: "string \<Rightarrow> string option" where
  "match_osc8_close (a # b # c # d # e # cs) =
     (if a = CHR '']'' \<and> b = CHR ''8'' \<and> c = CHR '';'' \<and> d = CHR '';'' \<and> e = BEL
      then Some cs else None)"
| "match_osc8_close _ = None"

text \<open>The group after \<^verbatim>\<open>\x1b\<close>: the first alternative that matches.\<close>

definition match_after_ESC :: "string \<Rightarrow> string option" where
  "match_after_ESC cs =
     (case match_csi cs of
        Some rest \<Rightarrow> Some rest
      | None \<Rightarrow>
          (case match_osc8 cs of
             Some rest \<Rightarrow> Some rest
           | None \<Rightarrow> match_osc8_close cs))"

lemma match_csi_shorter: "match_csi cs = Some rest \<Longrightarrow> length rest < length cs"
proof (cases cs)
  case Nil
  assume "match_csi cs = Some rest"
  with Nil show ?thesis by simp
next
  case (Cons c cs')
  assume m: "match_csi cs = Some rest"
  have "length (dropWhile is_param cs') \<le> length cs'"
    by (rule length_dropWhile_le)
  with m Cons show ?thesis
    by (auto split: if_splits list.splits)
qed

lemma lazy_until_BEL_shorter: "lazy_until_BEL cs = Some rest \<Longrightarrow> length rest < length cs"
  by (induction cs) (auto split: if_splits)

lemma match_osc8_shorter: "match_osc8 cs = Some rest \<Longrightarrow> length rest < length cs"
  by (induction cs rule: match_osc8.induct)
     (auto split: if_splits dest: lazy_until_BEL_shorter)

lemma match_osc8_close_shorter: "match_osc8_close cs = Some rest \<Longrightarrow> length rest < length cs"
  by (induction cs rule: match_osc8_close.induct) (auto split: if_splits)

lemma match_after_ESC_shorter: "match_after_ESC cs = Some rest \<Longrightarrow> length rest < length cs"
  unfolding match_after_ESC_def
  by (auto split: option.splits
      dest: match_csi_shorter match_osc8_shorter match_osc8_close_shorter)

text \<open>
  The global replacement by the empty string: the text is scanned from the left; a match is
  dropped and the scan goes on after it; a character where no match starts is kept.
\<close>

function stripAnsi :: "string \<Rightarrow> string" where
  "stripAnsi [] = []"
| "stripAnsi (c # cs) =
     (if c = ESC
      then (case match_after_ESC cs of
              Some rest \<Rightarrow> stripAnsi rest
            | None \<Rightarrow> c # stripAnsi cs)
      else c # stripAnsi cs)"
  by pat_completeness auto
termination
  by (relation "measure length") (auto dest: match_after_ESC_shorter)

text \<open>Whether a match of the pattern starts somewhere in the text.\<close>

fun has_escape :: "string \<Rightarrow> bool" where
  "has_escape [] = False"
| "has_escape (c # cs) =
     (if c = ESC \<and> match_after_ESC cs \<noteq> None then True else has_escape cs)"

section \<open>Trimming\<close>

text \<open>
  The white space and line terminators of \<^verbatim>\<open>trimStart\<close> and \<^verbatim>\<open>trimEnd\<close> that are in the
  range of \<^typ>\<open>char\<close>: tab, line feed, vertical tab, form feed, carriage return, space and
  the no-break space.
\<close>

definition is_whitespace :: "char \<Rightarrow> bool" where
  "is_whitespace c =
     (c \<in> {CHR 0x09, CHR 0x0A, CHR 0x0B, CHR 0x0C, CHR 0x0D, CHR 0x20, CHR 0xA0})"

definition trimStart :: "string \<Rightarrow> string" where
  "trimStart s = dropWhile is_whitespace s"

definition trimEnd :: "string \<Rightarrow> string" where
  "trimEnd s = rev (dropWhile is_whitespace (rev s))"

section \<open>The logger and its surroundings\<close>

text \<open>The object handed to the listeners and returned by \<^verbatim>\<open>log\<close>.\<close>

record log_result =
  "output" :: string
  stripped :: string

text \<open>
  What a listener can do to the logger while it runs: register a listener, unregister one,
  or reconfigure the logger. Other calls on the logger from inside a listener (a nested
  \<^verbatim>\<open>log\<close> in particular) are outside the model.
\<close>

datatype 'l logger_call =
    AddEventListener 'l
  | RemoveEventListener 'l
  | Configure PartialLoggerRuntimeConfig

text \<open>
  A \<^verbatim>\<open>LoggerEventListener\<close> is a function object. \<^verbatim>\<open>removeEventListener\<close> compares
  listeners with \<^verbatim>\<open>===\<close>, the identity of the object, which is \<open>ident\<close> here: two values
  with the same \<open>ident\<close> stand for the same object. Its call receives the result object,
  which is one mutable object shared by all listeners, and the state \<open>'u\<close> of the program
  around the logger. It gives, in this order: the value it throws (\<^term>\<open>None\<close> when it
  returns); the result object as it leaves it; the new state of the program; and the calls
  it has made on the logger, in the order it made them.
\<close>

datatype 'u LoggerEventListener =
  Listener (ident: nat)
    (run: "log_result \<Rightarrow> 'u \<Rightarrow>
           jsval option \<times> log_result \<times> 'u \<times> 'u LoggerEventListener logger_call list")

text \<open>What the logger writes with \<^verbatim>\<open>console.log\<close>, \<^verbatim>\<open>console.warn\<close> and \<^verbatim>\<open>console.error\<close>.\<close>

datatype console_line =
    ConsoleLog string
  | ConsoleWarn string nat
  | ConsoleError string jsval

text \<open>
  A call of \<^verbatim>\<open>fetch\<close>; \<open>body_message\<close> is the \<^verbatim>\<open>message\<close> of the object that
  \<^verbatim>\<open>JSON.stringify\<close> serialises into the body.
\<close>

record fetch_call =
  fetch_url :: string
  fetch_method :: string
  fetch_headers :: "string \<rightharpoonup> string"
  body_message :: string

text \<open>
  The surroundings of a logger: the console sink, the calls of \<^verbatim>\<open>fetch\<close> issued so far,
  and the state of the program that the listeners act on.
\<close>

record 'u world =
  console_sink :: "console_line list"
  fetch_calls :: "fetch_call list"
  program :: 'u

text \<open>
  A transformer is a function of the caller, \<^verbatim>\<open>(buffer: string) => string\<close>: it returns a
  string (\<^term>\<open>Inr\<close>) or throws a value (\<^term>\<open>Inl\<close>).
\<close>

type_synonym transformer = "string \<Rightarrow> jsval + string"

text \<open>
  A \<^verbatim>\<open>ComfyLogger\<close>: its \<^verbatim>\<open>options\<close> and, of \<^verbatim>\<open>#internal\<close>, the listeners of the event
  \<^verbatim>\<open>'log'\<close> and the two lists of transformers.
\<close>

record 'u ComfyLogger =
  options :: LoggerRuntimeConfig
  eventListeners :: "'u LoggerEventListener list"
  transformers_before :: "transformer list"
  transformers_after :: "transformer list"

text \<open>\<^verbatim>\<open>addEventListener(event, listener) { this.#internal.eventListeners[event].push(listener); }\<close>\<close>

definition addEventListener :: "'u ComfyLogger \<Rightarrow> 'u LoggerEventListener \<Rightarrow> 'u ComfyLogger" where
  "addEventListener this listener = this\<lparr>eventListeners := eventListeners this @ [listener]\<rparr>"

text \<open>
  The constructor: \<^verbatim>\<open>this.configure(options)\<close> over the initial options, then
  \<^verbatim>\<open>addEventListener('log', listener)\<close> for each listener of \<^verbatim>\<open>options.listeners.log\<close>, in
  order. A call without options is the call with \<^const>\<open>no_options\<close> and no listeners.
  The spread also copies the property \<^verbatim>\<open>listeners\<close> into the options, where nothing
  reads it.
\<close>

definition ComfyLogger_new ::
  "PartialLoggerRuntimeConfig \<Rightarrow> 'u LoggerEventListener list \<Rightarrow> 'u ComfyLogger" where
  "ComfyLogger_new opts listeners =
     foldl addEventListener
       \<lparr> options = configure initial_options opts, eventListeners = [],
         transformers_before = [], transformers_after = [] \<rparr>
       listeners"

text \<open>
  \<^verbatim>\<open>transformBefore(args)\<close> and \<^verbatim>\<open>transformAfter(args)\<close> push one transformer or each
  transformer of an array; the argument here is the list of the transformers pushed.
\<close>

definition transformBefore :: "'u ComfyLogger \<Rightarrow> transformer list \<Rightarrow> 'u ComfyLogger" where
  "transformBefore this args = this\<lparr>transformers_before := transformers_before this @ args\<rparr>"

definition transformAfter :: "'u ComfyLogger \<Rightarrow> transformer list \<Rightarrow> 'u ComfyLogger" where
  "transformAfter this args = this\<lparr>transformers_after := transformers_after this @ args\<rparr>"

text \<open>\<^verbatim>\<open>listeners.splice(i, 1)\<close>\<close>

definition splice1 :: "nat \<Rightarrow> 'a list \<Rightarrow> 'a list" where
  "splice1 i xs = take i xs @ drop (Suc i) xs"

text \<open>
  The inner loop of \<^verbatim>\<open>removeEventListener\<close>:
  \<^verbatim>\<open>for (let i = listeners.length - 1; i >= 0; i--) {
      if (listeners[i] === callback) {
          listeners.splice(i, 1);
          foundListeners.push(callback);
      }
  }\<close>
  The first argument is \<open>i + 1\<close>; the result is the list and \<^verbatim>\<open>foundListeners\<close>.
\<close>

fun remove_loop ::
  "nat \<Rightarrow> 'u LoggerEventListener \<Rightarrow> 'u LoggerEventListener list \<Rightarrow> 'u LoggerEventListener list
   \<Rightarrow> 'u LoggerEventListener list \<times> 'u LoggerEventListener list" where
  "remove_loop 0 callback listeners foundListeners = (listeners, foundListeners)"
| "remove_loop (Suc i) callback listeners foundListeners =
     (if ident (listeners ! i) = ident callback
      then remove_loop i callback (splice1 i listeners) (foundListeners @ [callback])
      else remove_loop i callback listeners foundListeners)"

text \<open>
  \<^verbatim>\<open>removeEventListener(callback)\<close>: the only event is \<^verbatim>\<open>'log'\<close>, so the outer loop runs
  once. It returns \<^verbatim>\<open>foundListeners.length > 0\<close>, and warns on the console when nothing
  was found.
\<close>

definition removeEventListener ::
  "'u ComfyLogger \<Rightarrow> 'u LoggerEventListener \<Rightarrow> 'u world \<Rightarrow> bool \<times> 'u ComfyLogger \<times> 'u world" where
  "removeEventListener this callback w =
     (let (listeners, foundListeners) =
            remove_loop (length (eventListeners this)) callback (eventListeners this) [];
          w' = (if length foundListeners = 0
                then w\<lparr>console_sink := console_sink w @
                       [ConsoleWarn ''Listener not found for removal:'' (ident callback)]\<rparr>
                else w)
      in (length foundListeners > 0, this\<lparr>eventListeners := listeners\<rparr>, w'))"

section \<open>The pipeline of log\<close>

text \<open>
  \<^verbatim>\<open>for (const transform of transformers) { result = transform(result); }\<close>:
  a transformer that throws ends the loop, and the call of \<^verbatim>\<open>log\<close>, with what it throws.
\<close>

fun apply_transformers :: "transformer list \<Rightarrow> string \<Rightarrow> jsval + string" where
  "apply_transformers [] result = Inr result"
| "apply_transformers (transform # rest) result =
     (case transform result of
        Inl error \<Rightarrow> Inl error
      | Inr result' \<Rightarrow> apply_transformers rest result')"

text \<open>
  The string \<^verbatim>\<open>finalMessage\<close>, from the rendering to the trimming. The callables among the
  arguments are style functions, whose calls return.
\<close>

definition finalMessage ::
  "string \<Rightarrow> 'u ComfyLogger \<Rightarrow> first_arg \<Rightarrow> jsval list \<Rightarrow> jsval + string" where
  "finalMessage reset this strings values =
     (let result = render (truthy_bool (autoSpaceBetween (options this))) strings values
      in case apply_transformers (transformers_before this) result of
           Inl error \<Rightarrow> Inl error
         | Inr result \<Rightarrow>
             (let m = result @ reset
              in case apply_transformers (transformers_after this) m of
                   Inl error \<Rightarrow> Inl error
                 | Inr m \<Rightarrow>
                     (let m = (if truthy_string (trimBefore (options this)) then trimStart m else m);
                          m = (if truthy_string (trimAfter (options this)) then trimEnd m else m)
                      in Inr m)))"

text \<open>\<^verbatim>\<open>if (this.options.console) { console.log(finalMessage); }\<close>\<close>

definition write_console :: "'u ComfyLogger \<Rightarrow> string \<Rightarrow> 'u world \<Rightarrow> 'u world" where
  "write_console this m w =
     (if truthy_bool (console (options this))
      then w\<lparr>console_sink := console_sink w @ [ConsoleLog m]\<rparr>
      else w)"

text \<open>\<^verbatim>\<open>{ output: finalMessage, stripped: stripAnsi(finalMessage) }\<close>\<close>

definition resultObj :: "string \<Rightarrow> log_result" where
  "resultObj m = \<lparr> output = m, stripped = stripAnsi m \<rparr>"

text \<open>
  What the loop over the listeners reads and changes: the one result object, the logger
  (whose array of listeners the loop iterates while the listeners may change it), and the
  surroundings.
\<close>

record 'u dispatching =
  event :: log_result
  logger :: "'u ComfyLogger"
  surroundings :: "'u world"

text \<open>A call that a listener makes on the logger.\<close>

fun apply_call :: "'u LoggerEventListener logger_call \<Rightarrow> 'u dispatching \<Rightarrow> 'u dispatching" where
  "apply_call (AddEventListener listener) s =
     s\<lparr>logger := addEventListener (logger s) listener\<rparr>"
| "apply_call (RemoveEventListener callback) s =
     (case removeEventListener (logger s) callback (surroundings s) of
        (found, this, w) \<Rightarrow> s\<lparr>logger := this, surroundings := w\<rparr>)"
| "apply_call (Configure opts) s =
     s\<lparr>logger := (logger s)\<lparr>options := configure (options (logger s)) opts\<rparr>\<rparr>"

fun apply_calls :: "'u LoggerEventListener logger_call list \<Rightarrow> 'u dispatching \<Rightarrow> 'u dispatching" where
  "apply_calls [] s = s"
| "apply_calls (c # cs) s = apply_calls cs (apply_call c s)"

text \<open>
  \<^verbatim>\<open>try { onLog(resultObj); }
  catch (error) { console.error("Error in log event listener:", error); }\<close>
  What the listener has done before it throws stays done.
\<close>

definition call_listener :: "'u LoggerEventListener \<Rightarrow> 'u dispatching \<Rightarrow> 'u dispatching" where
  "call_listener onLog s =
     (case run onLog (event s) (program (surroundings s)) of
        (thrown, e, u, calls) \<Rightarrow>
          (let s = apply_calls calls (s\<lparr>event := e, surroundings := (surroundings s)\<lparr>program := u\<rparr>\<rparr>)
           in case thrown of
                None \<Rightarrow> s
              | Some error \<Rightarrow>
                  s\<lparr>surroundings := (surroundings s)
                      \<lparr>console_sink := console_sink (surroundings s) @
                         [ConsoleError ''Error in log event listener:'' error]\<rparr>\<rparr>))"

text \<open>
  \<^verbatim>\<open>for (const onLog of this.#internal.eventListeners['log']) { ... }\<close>: the iterator of an
  array keeps an index \<open>k\<close>; at each step it compares \<open>k\<close> with the length the array has
  then, reads the element at \<open>k\<close> and goes on with \<open>k + 1\<close>. The loop need not end (a
  listener can register a listener at every call); \<^term>\<open>None\<close> is the run that does not
  end.
\<close>

partial_function (option) dispatch_from :: "nat \<Rightarrow> 'u dispatching \<Rightarrow> 'u dispatching option" where
  "dispatch_from k s =
     (if k < length (eventListeners (logger s))
      then dispatch_from (Suc k) (call_listener (eventListeners (logger s) ! k) s)
      else Some s)"

text \<open>
  The call of \<^verbatim>\<open>fetch\<close> when \<^verbatim>\<open>this.options.externalLogging\<close> is set, with
  \<^verbatim>\<open>headers = {}\<close> and \<^verbatim>\<open>method = 'POST'\<close> as defaults and the headers
  \<^verbatim>\<open>{ 'Content-Type': 'application/json', ...headers }\<close>. The promise is not awaited;
  its rejection handler runs after \<^verbatim>\<open>log\<close> has returned and is not part of the model.
\<close>

definition forward_external :: "'u ComfyLogger \<Rightarrow> log_result \<Rightarrow> 'u world \<Rightarrow> 'u world" where
  "forward_external this r w =
     (case externalLogging (options this) of
        None \<Rightarrow> w
      | Some ext \<Rightarrow>
          w\<lparr>fetch_calls := fetch_calls w @
              [\<lparr> fetch_url = url ext,
                 fetch_method = (case http_method ext of None \<Rightarrow> ''POST'' | Some m \<Rightarrow> m),
                 fetch_headers =
                   [''Content-Type'' \<mapsto> ''application/json''] ++
                   (case headers ext of None \<Rightarrow> Map.empty | Some h \<Rightarrow> h),
                 body_message = stripped r \<rparr>]\<rparr>)"

text \<open>
  \<^verbatim>\<open>log(strings, ...values)\<close>. The parameter \<open>g\<close> is the tag filter of the process. The
  result is \<^term>\<open>None\<close> when the call does not end. When it ends, it gives how: it throws
  (\<^term>\<open>Inl\<close>), or it returns (\<^term>\<open>Inr\<close>) nothing, which is the bare \<^verbatim>\<open>return\<close> of a
  suppressed call, or the result object as the listeners have left it; and it gives the
  logger and the surroundings after the call. The options are read when the code reads
  them: \<^verbatim>\<open>console\<close> before the listeners run, \<^verbatim>\<open>externalLogging\<close> after.
\<close>

definition log ::
  "string \<Rightarrow> tag_filter \<Rightarrow> 'u ComfyLogger \<Rightarrow> first_arg \<Rightarrow> jsval list \<Rightarrow> 'u world
   \<Rightarrow> ((jsval + log_result option) \<times> 'u ComfyLogger \<times> 'u world) option" where
  "log reset g this strings values w =
     (if \<not> shouldLog g (options this) then Some (Inr None, this, w)
      else
        (case finalMessage reset this strings values of
           Inl error \<Rightarrow> Some (Inl error, this, w)
         | Inr m \<Rightarrow>
             (let w = write_console this m w;
                  r = resultObj m
              in case dispatch_from 0 \<lparr> event = r, logger = this, surroundings = w \<rparr> of
                   None \<Rightarrow> None
                 | Some s \<Rightarrow>
                     Some (Inr (Some (event s)), logger s,
                           forward_external (logger s) (event s) (surroundings s)))))"

section \<open>Reference definitions\<close>

text \<open>
  The tail of a template rendering in closed form: each value, then the literal part after
  it; a literal part that has no value before it stands alone.
\<close>

fun weave :: "jsval list \<Rightarrow> string list \<Rightarrow> string" where
  "weave vs [] = []"
| "weave [] (q # qs) = q @ weave [] qs"
| "weave (v # vs) (q # qs) = template_part v @ q @ weave vs qs"

text \<open>
  The rendering of a tagged template as the specification words it:
  \<open>parts[0] + r(values[0]) + parts[1] + ... + parts[n]\<close>, where \<open>r\<close> invokes a callable with
  no argument and string-converts any other value.
\<close>

definition render_template_spec :: "string list \<Rightarrow> jsval list \<Rightarrow> string" where
  "render_template_spec parts vals =
     hd parts @ concat (map2 (\<lambda>v q. plain_part v @ q) vals (tl parts))"




text \<open>
  The usual SGR reset sequence, for the places where a concrete value of the parameter
  \<open>reset\<close> is needed.
\<close>

definition RESET :: string where
  "RESET = ESC # ''[0m''"

section \<open>Example listeners and surroundings\<close>

text \<open>
  A program whose state is the list of the texts its listeners have written down: a
  listener that writes down the stripped text it receives, a listener that throws, a
  listener that writes down its name, one that also unregisters itself, one that rewrites
  the stripped text of the result object, a transformer that throws, the state before any
  output, and a tag filter with nothing registered. The listener that unregisters itself
  passes to \<^verbatim>\<open>removeEventListener\<close> a value of its own identity, which is all that the
  comparison reads.
\<close>

definition recorder :: "nat \<Rightarrow> string list LoggerEventListener" where
  "recorder n = Listener n (\<lambda>e u. (None, e, u @ [stripped e], []))"

definition thrower :: "nat \<Rightarrow> string list LoggerEventListener" where
  "thrower n = Listener n (\<lambda>e u. (Some (JStr ''boom''), e, u, []))"

definition named :: "nat \<Rightarrow> string \<Rightarrow> string list LoggerEventListener" where
  "named n name = Listener n (\<lambda>e u. (None, e, u @ [name], []))"

definition once :: "nat \<Rightarrow> string \<Rightarrow> string list LoggerEventListener" where
  "once n name =
     Listener n (\<lambda>e u. (None, e, u @ [name], [RemoveEventListener (named n name)]))"

definition rewriter :: "nat \<Rightarrow> string \<Rightarrow> string list LoggerEventListener" where
  "rewriter n text = Listener n (\<lambda>e u. (None, e\<lparr>stripped := text\<rparr>, u, []))"

definition failing_transformer :: transformer where
  "failing_transformer = (\<lambda>buffer. Inl (JStr ''no''))"

definition empty_world :: "string list world" where
  "empty_world = \<lparr> console_sink = [], fetch_calls = [], program = [] \<rparr>"

definition no_filter :: tag_filter where
  "no_filter = \<lparr> whitelistTags = {}, blacklistTags = {} \<rparr>"

section \<open>Properties of the style functions\<close>

text \<open>
  C4: the style function returned by \<^verbatim>\<open>makeStyle(c)\<close>, called with no argument (or with
  \<^verbatim>\<open>undefined\<close>), returns exactly \<open>c\<close>; called with a text \<open>x\<close> it returns \<open>c\<close>, then
  \<open>x\<close>, then the reset code.
\<close>

theorem makeStyle_contract:
  "call (makeStyle reset c) None = c \<and> call (makeStyle reset c) (Some x) = c @ x @ reset"
  by (simp add: makeStyle_def)

section \<open>Properties of the rendering\<close>

lemma index_js_Cons: "1 \<le> i \<Longrightarrow> index_js (v # vs) i = index_js vs (i - 1)"
  by (auto simp: index_js_def nat_diff_distrib' nth_Cons split: nat.splits)

lemma index_js_Nil: "index_js [] i = JUndefined"
  by (auto simp: index_js_def)

lemma template_part_undefined: "template_part JUndefined = []"
  by (simp add: template_part_def)

lemma template_reduce_shift:
  "1 \<le> i \<Longrightarrow> template_reduce (v # vs) (i + 1) acc parts = template_reduce vs i acc parts"
proof (induction parts arbitrary: i acc)
  case Nil
  show ?case by simp
next
  case (Cons str rest)
  from Cons.prems have "index_js (v # vs) (i + 1 - 1) = index_js vs (i - 1)"
    by (simp add: index_js_Cons)
  moreover from Cons.prems have "template_reduce (v # vs) (i + 1 + 1) a rest = template_reduce vs (i + 1) a rest" for a
    by (intro Cons.IH) simp
  ultimately show ?case by simp
qed

lemma template_reduce_weave: "template_reduce vals 1 acc parts = acc @ weave vals parts"
proof (induction parts arbitrary: vals acc)
  case Nil
  show ?case by simp
next
  case (Cons str rest)
  show ?case
  proof (cases vals)
    case Nil
    have "template_reduce [] i a ps = a @ concat ps" for i a ps
      by (induction ps arbitrary: i a) (simp_all add: index_js_Nil template_part_undefined)
    moreover have "weave [] ps = concat ps" for ps
      by (induction ps) simp_all
    ultimately show ?thesis using Nil by (simp add: index_js_Nil template_part_undefined)
  next
    case (Cons v vs)
    have "template_reduce (v # vs) (1 + 1) a rest = template_reduce vs 1 a rest" for a
      by (rule template_reduce_shift) simp
    then show ?thesis using Cons Cons.IH [of vs] by (simp add: index_js_def)
  qed
qed

lemma render_template_weave:
  "render a (TemplateStrings (p # ps)) values = p @ weave values ps"
proof -
  have "template_reduce values (0 + 1) acc ps = acc @ weave values ps" for acc
    using template_reduce_weave by simp
  then show ?thesis by (simp add: render_def index_js_def template_part_def)
qed

lemma weave_map2:
  "length vals = length ps \<Longrightarrow> weave vals ps = concat (map2 (\<lambda>v q. template_part v @ q) vals ps)"
  by (induction vals ps rule: list_induct2) simp_all

lemma weave_undefined:
  "length vs = length ps \<Longrightarrow> weave (vs @ JUndefined # ws) (ps @ q # qs) = weave vs ps @ q @ weave ws qs"
  by (induction vs ps rule: list_induct2) (simp_all add: template_part_def)

lemma weave_append:
  "length vs = length ps \<Longrightarrow> weave (vs @ ws) (ps @ qs) = weave vs ps @ weave ws qs"
  by (induction vs ps rule: list_induct2) simp_all

lemma join_Cons: "join sep (x # xs) = x @ concat (map (\<lambda>y. sep @ y) xs)"
  by (induction sep "x # xs" arbitrary: x xs rule: join.induct) simp_all

text \<open>
  C3, as stated: the rendering of a tagged template is \<^const>\<open>render_template_spec\<close>. It is not:
  for \<^verbatim>\<open>log`a${undefined}b`\<close> the code renders \<open>ab\<close>, where string conversion of the value
  gives \<open>aundefinedb\<close>.
\<close>

theorem render_template_counterexample:
  "render True (TemplateStrings [''a'', ''b'']) [JUndefined] = ''ab'' \<and>
   render_template_spec [''a'', ''b''] [JUndefined] = ''aundefinedb'' \<and>
   render True (TemplateStrings [''a'', ''b'']) [JUndefined] \<noteq>
     render_template_spec [''a'', ''b''] [JUndefined]"
  by (simp add: render_def render_template_spec_def index_js_def template_part_def plain_part_def)

text \<open>
  C3, amended: for a tagged-template call with parts \<open>parts[0..n]\<close> and values
  \<open>values[0..n-1]\<close>, the rendered string before the transformers is
  \<open>parts[0] + r(values[0]) + parts[1] + ... + r(values[n-1]) + parts[n]\<close>, where \<open>r\<close> gives the
  empty string for \<^verbatim>\<open>undefined\<close>, invokes a callable with no argument, and string-converts
  any other value.
\<close>

theorem render_template_positional:
  "length parts = Suc (length vals) \<Longrightarrow>
     render a (TemplateStrings parts) vals =
       hd parts @ concat (map2 (\<lambda>v q. template_part v @ q) vals (tl parts)) \<and>
     template_part JUndefined = [] \<and>
     template_part (JFun f) = call f None \<and>
     template_part JNull = String_conv JNull \<and>
     template_part (JBool b) = String_conv (JBool b) \<and>
     template_part (JStr s) = String_conv (JStr s)"
proof -
  assume len: "length parts = Suc (length vals)"
  then obtain p ps where parts: "parts = p # ps" and ps: "length vals = length ps"
    by (cases parts) auto
  have "render a (TemplateStrings parts) vals = p @ weave vals ps"
    unfolding parts by (rule render_template_weave)
  also have "weave vals ps = concat (map2 (\<lambda>v q. template_part v @ q) vals ps)"
    using ps by (rule weave_map2)
  finally have "render a (TemplateStrings parts) vals =
      hd parts @ concat (map2 (\<lambda>v q. template_part v @ q) vals (tl parts))"
    by (simp add: parts)
  then show ?thesis by (simp add: template_part_def)
qed

theorem render_template_positional_witness:
  "length [''Hello, '', ''!''] = Suc (length [JStr ''Bob'']) \<and>
   render True (TemplateStrings [''Hello, '', ''!'']) [JStr ''Bob''] = ''Hello, Bob!''"
  using render_template_positional [of "[''Hello, '', ''!'']" "[JStr ''Bob'']" True]
  by simp

lemma weave_fuse_last:
  "length vs = Suc (length pre) \<Longrightarrow> weave vs (pre @ [p @ q]) = weave vs (pre @ [p]) @ q"
proof (induction pre arbitrary: vs)
  case Nil
  then obtain v where "vs = [v]" by (cases vs) auto
  then show ?case by simp
next
  case (Cons x pre)
  then obtain v vs' where vs: "vs = v # vs'" and "length vs' = Suc (length pre)"
    by (cases vs) auto
  with Cons.IH [of vs'] show ?case by simp
qed

text \<open>
  C10: in a tagged-template call, an interpolated value that is \<^verbatim>\<open>undefined\<close> contributes
  the empty string: the rendering is that of the template without this interpolation, its
  two neighbouring literal parts joined. The value is neither invoked nor string-converted.
\<close>

theorem render_template_undefined:
  "length vs = length pre \<Longrightarrow>
     render a (TemplateStrings (pre @ [p, q] @ post)) (vs @ [JUndefined] @ ws) =
     render a (TemplateStrings (pre @ [p @ q] @ post)) (vs @ ws)"
proof (cases pre)
  case Nil
  assume "length vs = length pre"
  with Nil show ?thesis
    by (simp add: render_template_weave template_part_undefined)
next
  case (Cons p0 pre')
  assume len: "length vs = length pre"
  with Cons have l1: "length vs = length (pre' @ [p])" and l2: "length vs = length (pre' @ [p @ q])"
    and l3: "length vs = Suc (length pre')"
    by simp_all
  have "weave (vs @ JUndefined # ws) ((pre' @ [p]) @ q # post) = weave vs (pre' @ [p]) @ q @ weave ws post"
    using l1 by (rule weave_undefined)
  moreover have "weave (vs @ ws) ((pre' @ [p @ q]) @ post) = weave vs (pre' @ [p @ q]) @ weave ws post"
    using l2 by (rule weave_append)
  moreover have "weave vs (pre' @ [p @ q]) = weave vs (pre' @ [p]) @ q"
    using l3 by (rule weave_fuse_last)
  ultimately show ?thesis
    using Cons by (simp add: render_template_weave)
qed

theorem render_template_undefined_witness:
  "length [JStr ''x''] = length [''a''] \<and>
   render True (TemplateStrings [''a'', ''b'', ''c'', ''d'']) [JStr ''x'', JUndefined, JStr ''y'']
     = ''axbcyd''"
  using render_template_undefined [of "[JStr ''x'']" "[''a'']" True "''b''" "''c''" "[''d'']" "[JStr ''y'']"]
  by (simp add: render_def index_js_def template_part_def)

text \<open>
  C5: in an ordinary call every argument is rendered by invoking it with no argument when
  it is callable and by string conversion otherwise; the renderings are joined with one
  space when \<^verbatim>\<open>autoSpaceBetween\<close> is on and concatenated when it is off. So
  \<^verbatim>\<open>log("a", "b")\<close> renders \<open>a b\<close> with auto-spacing on and \<open>ab\<close> with it off, and
  without transformers and trimming the message is that string with the reset code appended.
\<close>

theorem render_plain_join:
  "render True (Plain a) rest = plain_part a @ concat (map (\<lambda>v. '' '' @ plain_part v) rest) \<and>
   render False (Plain a) rest = concat (map plain_part (a # rest)) \<and>
   plain_part (JFun f) = call f None \<and>
   plain_part JUndefined = String_conv JUndefined \<and>
   plain_part JNull = String_conv JNull \<and>
   plain_part (JBool b) = String_conv (JBool b) \<and>
   plain_part (JStr s) = String_conv (JStr s) \<and>
   render True (Plain (JStr ''a'')) [JStr ''b''] = ''a b'' \<and>
   render False (Plain (JStr ''a'')) [JStr ''b''] = ''ab'' \<and>
   finalMessage reset
     \<lparr> options = initial_options, eventListeners = ls,
       transformers_before = [], transformers_after = [] \<rparr>
     (Plain (JStr ''a'')) [JStr ''b''] = Inr (''a b'' @ reset) \<and>
   finalMessage reset
     \<lparr> options = configure initial_options (no_options\<lparr>p_autoSpaceBetween := Some (Some False)\<rparr>),
       eventListeners = ls, transformers_before = [], transformers_after = [] \<rparr>
     (Plain (JStr ''a'')) [JStr ''b''] = Inr (''ab'' @ reset)"
proof -
  have r: "render b (Plain a) rest =
      plain_part a @ concat (map (\<lambda>v. (if b then '' '' else []) @ plain_part v) rest)" for b
    by (simp add: render_def join_Cons comp_def)
  have t: "render True (Plain a) rest = plain_part a @ concat (map (\<lambda>v. '' '' @ plain_part v) rest)"
    using r [of True] by simp
  have f: "render False (Plain a) rest = concat (map plain_part (a # rest))"
    using r [of False] by simp
  have p: "plain_part (JFun f) = call f None \<and>
      plain_part JUndefined = String_conv JUndefined \<and>
      plain_part JNull = String_conv JNull \<and>
      plain_part (JBool b) = String_conv (JBool b) \<and>
      plain_part (JStr s) = String_conv (JStr s)"
    by (simp add: plain_part_def)
  have c1: "render True (Plain (JStr ''a'')) [JStr ''b''] = ''a b''"
    by (simp add: render_def plain_part_def)
  have c2: "render False (Plain (JStr ''a'')) [JStr ''b''] = ''ab''"
    by (simp add: render_def plain_part_def)
  have m1: "finalMessage reset
     \<lparr> options = initial_options, eventListeners = ls,
       transformers_before = [], transformers_after = [] \<rparr>
     (Plain (JStr ''a'')) [JStr ''b''] = Inr (''a b'' @ reset)"
    by (simp add: finalMessage_def initial_options_def truthy_bool_def truthy_string_def c1)
  have m2: "finalMessage reset
     \<lparr> options = configure initial_options (no_options\<lparr>p_autoSpaceBetween := Some (Some False)\<rparr>),
       eventListeners = ls, transformers_before = [], transformers_after = [] \<rparr>
     (Plain (JStr ''a'')) [JStr ''b''] = Inr (''ab'' @ reset)"
    by (simp add: finalMessage_def initial_options_def no_options_def configure_def spread_def
        truthy_bool_def truthy_string_def c2)
  from t f p c1 c2 m1 m2 show ?thesis by blast
qed

section \<open>Properties of the configuration\<close>

text \<open>
  C8: \<^verbatim>\<open>configure(p)\<close> leaves every field that \<open>p\<close> does not mention as it was, and gives
  every field that \<open>p\<close> mentions the value it has in \<open>p\<close>.
\<close>

theorem configure_merge:
  "(p_autoSpaceBetween p = None \<longrightarrow> autoSpaceBetween (configure c p) = autoSpaceBetween c) \<and>
   (p_timestampFormat p = None \<longrightarrow> timestampFormat (configure c p) = timestampFormat c) \<and>
   (p_trimBefore p = None \<longrightarrow> trimBefore (configure c p) = trimBefore c) \<and>
   (p_trimAfter p = None \<longrightarrow> trimAfter (configure c p) = trimAfter c) \<and>
   (p_externalLogging p = None \<longrightarrow> externalLogging (configure c p) = externalLogging c) \<and>
   (p_console p = None \<longrightarrow> console (configure c p) = console c) \<and>
   (p_tags p = None \<longrightarrow> tags (configure c p) = tags c) \<and>
   (p_logErrorsToConsole p = None \<longrightarrow> logErrorsToConsole (configure c p) = logErrorsToConsole c) \<and>
   (\<forall>v. p_autoSpaceBetween p = Some v \<longrightarrow> autoSpaceBetween (configure c p) = v) \<and>
   (\<forall>v. p_timestampFormat p = Some v \<longrightarrow> timestampFormat (configure c p) = v) \<and>
   (\<forall>v. p_trimBefore p = Some v \<longrightarrow> trimBefore (configure c p) = v) \<and>
   (\<forall>v. p_trimAfter p = Some v \<longrightarrow> trimAfter (configure c p) = v) \<and>
   (\<forall>v. p_externalLogging p = Some v \<longrightarrow> externalLogging (configure c p) = v) \<and>
   (\<forall>v. p_console p = Some v \<longrightarrow> console (configure c p) = v) \<and>
   (\<forall>v. p_tags p = Some v \<longrightarrow> tags (configure c p) = v) \<and>
   (\<forall>v. p_logErrorsToConsole p = Some v \<longrightarrow> logErrorsToConsole (configure c p) = v)"
  by (simp add: configure_def spread_def)

theorem configure_merge_witness:
  "p_console (no_options\<lparr>p_console := Some (Some False), p_tags := Some (Some [''db''])\<rparr>) = Some (Some False) \<and>
   p_tags (no_options\<lparr>p_console := Some (Some False), p_tags := Some (Some [''db''])\<rparr>) = Some (Some [''db'']) \<and>
   p_autoSpaceBetween (no_options\<lparr>p_console := Some (Some False), p_tags := Some (Some [''db''])\<rparr>) = None \<and>
   configure initial_options (no_options\<lparr>p_console := Some (Some False), p_tags := Some (Some [''db''])\<rparr>) =
     initial_options\<lparr>console := Some False, tags := Some [''db'']\<rparr>"
  using configure_merge [of "no_options\<lparr>p_console := Some (Some False), p_tags := Some (Some [''db''])\<rparr>" initial_options]
  by (simp add: no_options_def initial_options_def)

section \<open>Properties of the removal of escape sequences\<close>

lemma stripAnsi_no_ESC: "ESC \<notin> set t \<Longrightarrow> stripAnsi t = t"
  by (induction t) auto

lemma stripAnsi_length: "length (stripAnsi t) \<le> length t"
proof (induction t rule: stripAnsi.induct)
  case 1
  show ?case by simp
next
  case (2 c cs)
  show ?case
  proof (cases "c = ESC")
    case False
    with 2 show ?thesis by simp
  next
    case True
    show ?thesis
    proof (cases "match_after_ESC cs")
      case None
      with True 2 show ?thesis by simp
    next
      case (Some rest)
      with True 2 have "length (stripAnsi rest) \<le> length rest" by simp
      moreover from Some have "length rest < length cs" by (rule match_after_ESC_shorter)
      ultimately show ?thesis using True Some by simp
    qed
  qed
qed

lemma stripAnsi_changes: "has_escape t \<Longrightarrow> length (stripAnsi t) < length t"
proof (induction t)
  case Nil
  then show ?case by simp
next
  case (Cons c cs)
  show ?case
  proof (cases "c = ESC \<and> match_after_ESC cs \<noteq> None")
    case True
    then obtain rest where r: "match_after_ESC cs = Some rest" by auto
    then have "length rest < length cs" by (rule match_after_ESC_shorter)
    moreover have "length (stripAnsi rest) \<le> length rest" by (rule stripAnsi_length)
    ultimately show ?thesis using True r by simp
  next
    case False
    with Cons have "length (stripAnsi cs) < length cs" by (simp split: if_splits)
    with False show ?thesis by (auto split: option.splits)
  qed
qed
lemma strip_example: "stripAnsi (ESC # ''[31mred'' @ ESC # ''[0m'') = ''red''"
  by (simp add: match_after_ESC_def is_param_def ESC_def)

lemma strip_example2: "stripAnsi (ESC # '']8;;http://x'' @ [BEL] @ ''link'' @ ESC # '']8;;'' @ [BEL]) = ''link''"
  by (simp add: match_after_ESC_def is_param_def ESC_def BEL_def is_line_terminator_def)

text \<open>
  C9: on a text in which no match of the escape-removal pattern starts, \<^const>\<open>stripAnsi\<close> is
  the identity.
\<close>

theorem stripAnsi_identity: "\<not> has_escape t \<Longrightarrow> stripAnsi t = t"
  by (induction t) (auto split: if_splits)

theorem stripAnsi_identity_witness:
  "\<not> has_escape ''Hello, Bob!'' \<and> stripAnsi ''Hello, Bob!'' = ''Hello, Bob!''"
proof -
  have h: "\<not> has_escape ''Hello, Bob!''" by (simp add: ESC_def)
  from h stripAnsi_identity [OF h] show ?thesis by simp
qed

section \<open>Properties of the listeners\<close>

lemma splice1_take: "i \<le> length xs \<Longrightarrow> take i (splice1 i xs) = take i xs"
  by (simp add: splice1_def)

lemma splice1_drop: "i \<le> length xs \<Longrightarrow> drop i (splice1 i xs) = drop (Suc i) xs"
  by (simp add: splice1_def)

lemma remove_loop_filter:
  "n \<le> length ls \<Longrightarrow>
   remove_loop n cb ls found =
     (filter (\<lambda>l. ident l \<noteq> ident cb) (take n ls) @ drop n ls,
      found @ replicate (length (filter (\<lambda>l. ident l = ident cb) (take n ls))) cb)"
proof (induction n arbitrary: ls found)
  case 0
  show ?case by simp
next
  case (Suc i)
  then have i: "i < length ls" by simp
  have tk: "take (Suc i) ls = take i ls @ [ls ! i]"
    using i by (rule take_Suc_conv_app_nth)
  show ?case
  proof (cases "ident (ls ! i) = ident cb")
    case True
    have len: "i \<le> length (splice1 i ls)" using i by (simp add: splice1_def)
    have le: "i \<le> length ls" using i by simp
    show ?thesis
      using True Suc.IH [OF len, of "found @ [cb]"] splice1_take [OF le] splice1_drop [OF le]
      by (simp add: tk replicate_append_same)
  next
    case False
    have le: "i \<le> length ls" using i by simp
    have "drop i ls = ls ! i # drop (Suc i) ls"
      using i by (simp add: Cons_nth_drop_Suc)
    then show ?thesis
      using False Suc.IH [OF le, of found] by (simp add: tk)
  qed
qed

lemma removeEventListener_eq:
  "removeEventListener this cb w =
     (let found = filter (\<lambda>l. ident l = ident cb) (eventListeners this) in
      (found \<noteq> [],
       this\<lparr>eventListeners := filter (\<lambda>l. ident l \<noteq> ident cb) (eventListeners this)\<rparr>,
       if found = []
       then w\<lparr>console_sink := console_sink w @
              [ConsoleWarn ''Listener not found for removal:'' (ident cb)]\<rparr>
       else w))"
  by (simp add: removeEventListener_def remove_loop_filter Let_def)

text \<open>
  C7: \<^verbatim>\<open>removeEventListener(fn)\<close> on a logger where \<open>fn\<close> is not registered returns
  \<^verbatim>\<open>false\<close> and leaves the listeners as they are (it only warns on the console); where
  \<open>fn\<close> is registered it removes every instance of \<open>fn\<close>, keeps the other listeners in
  their order, and returns \<^verbatim>\<open>true\<close>. In both cases \<open>fn\<close> is not among the listeners
  afterwards, so no later dispatch reaches it.
\<close>

theorem removeEventListener_result:
  "(ident fn \<notin> ident ` set (eventListeners this) \<longrightarrow>
      removeEventListener this fn w =
        (False, this,
         w\<lparr>console_sink := console_sink w @
            [ConsoleWarn ''Listener not found for removal:'' (ident fn)]\<rparr>)) \<and>
   (ident fn \<in> ident ` set (eventListeners this) \<longrightarrow>
      removeEventListener this fn w =
        (True,
         this\<lparr>eventListeners := filter (\<lambda>l. ident l \<noteq> ident fn) (eventListeners this)\<rparr>,
         w)) \<and>
   ident fn \<notin> ident ` set (eventListeners (fst (snd (removeEventListener this fn w))))"
proof -
  have a: "filter (\<lambda>l. ident l = ident fn) (eventListeners this) = []"
    and b: "filter (\<lambda>l. ident l \<noteq> ident fn) (eventListeners this) = eventListeners this"
    if "ident fn \<notin> ident ` set (eventListeners this)"
    using that by (auto simp: filter_empty_conv filter_id_conv image_iff)
  have c: "filter (\<lambda>l. ident l = ident fn) (eventListeners this) \<noteq> []"
    if "ident fn \<in> ident ` set (eventListeners this)"
    using that by (auto simp: filter_empty_conv image_iff)
  show ?thesis
    using a b c by (auto simp: removeEventListener_eq Let_def)
qed

theorem removeEventListener_result_witness:
  "ident (recorder 1) \<in> ident ` set (eventListeners (ComfyLogger_new no_options [recorder 1, thrower 2, recorder 1])) \<and>
   removeEventListener (ComfyLogger_new no_options [recorder 1, thrower 2, recorder 1]) (recorder 1) empty_world =
     (True, ComfyLogger_new no_options [thrower 2], empty_world) \<and>
   ident (recorder 3) \<notin> ident ` set (eventListeners (ComfyLogger_new no_options [recorder 1, thrower 2, recorder 1])) \<and>
   removeEventListener (ComfyLogger_new no_options [recorder 1, thrower 2, recorder 1]) (recorder 3) empty_world =
     (False, ComfyLogger_new no_options [recorder 1, thrower 2, recorder 1],
      empty_world\<lparr>console_sink := [ConsoleWarn ''Listener not found for removal:'' 3]\<rparr>)"
  using removeEventListener_result [of "recorder 1" "ComfyLogger_new no_options [recorder 1, thrower 2, recorder 1]" empty_world]
    removeEventListener_result [of "recorder 3" "ComfyLogger_new no_options [recorder 1, thrower 2, recorder 1]" empty_world]
  by (simp add: ComfyLogger_new_def addEventListener_def recorder_def thrower_def empty_world_def)

section \<open>Properties of the pipeline\<close>

text \<open>Unfolding the examples.\<close>

lemmas ev = ComfyLogger_new_def addEventListener_def recorder_def thrower_def named_def once_def
  rewriter_def failing_transformer_def empty_world_def transformBefore_def
  no_filter_def shouldLog_def isTagBlacklisted_def isTagWhitelisted_def
  configure_def spread_def no_options_def initial_options_def
  finalMessage_def render_def plain_part_def truthy_bool_def truthy_string_def
  write_console_def resultObj_def call_listener_def forward_external_def
  RESET_def ESC_def match_after_ESC_def is_param_def Let_def










section \<open>Properties of the tag filter\<close>

text \<open>
  What the loop of \<^verbatim>\<open>#shouldLog\<close> computes: the call goes on unless some tag of the
  logger is both blacklisted and whitelisted.
\<close>

lemma shouldLog_loop_iff:
  "shouldLog_loop g ts = (\<forall>t \<in> set ts. \<not> (isTagBlacklisted g t \<and> isTagWhitelisted g t))"
  by (induction ts) auto

text \<open>
  C1: a logger with a tag that is blacklisted and not whitelisted suppresses every call of
  \<^verbatim>\<open>log\<close>. The code does not: with the tag \<open>T\<close> blacklisted and nothing whitelisted, a
  logger tagged \<open>T\<close> renders the message, writes it to the console, calls its listener,
  issues the network call and returns the pair.
\<close>

theorem log_blacklisted_tag_evaluation:
  "log RESET \<lparr> whitelistTags = {}, blacklistTags = {''T''} \<rparr>
     (ComfyLogger_new
        (no_options\<lparr>p_tags := Some (Some [''T'']),
           p_externalLogging := Some (Some \<lparr> url = ''http://collector/log'', headers = None, http_method = None \<rparr>)\<rparr>)
        [recorder 1])
     (Plain (JStr ''hi'')) [] empty_world =
   Some (Inr (Some \<lparr> output = ''hi'' @ RESET, stripped = ''hi'' \<rparr>),
         ComfyLogger_new
           (no_options\<lparr>p_tags := Some (Some [''T'']),
              p_externalLogging := Some (Some \<lparr> url = ''http://collector/log'', headers = None, http_method = None \<rparr>)\<rparr>)
           [recorder 1],
         \<lparr> console_sink = [ConsoleLog (''hi'' @ RESET)],
           fetch_calls =
             [\<lparr> fetch_url = ''http://collector/log'', fetch_method = ''POST'',
                fetch_headers = [''Content-Type'' \<mapsto> ''application/json''],
                body_message = ''hi'' \<rparr>],
           program = [''hi''] \<rparr>)"
  by (simp add: log_def ev dispatch_from.simps)

text \<open>
  C2: a tag that is both blacklisted and whitelisted does not suppress the call. The code
  suppresses it: with the tag \<open>T\<close> blacklisted and whitelisted, a call of \<^verbatim>\<open>log\<close> on a
  logger tagged \<open>T\<close> returns nothing and leaves the logger, the console, the listeners and
  the network untouched.
\<close>

theorem log_blacklisted_whitelisted_tag_evaluation:
  "log RESET \<lparr> whitelistTags = {''T''}, blacklistTags = {''T''} \<rparr>
     (ComfyLogger_new (no_options\<lparr>p_tags := Some (Some [''T''])\<rparr>) [recorder 1])
     (Plain (JStr ''hi'')) [] empty_world =
   Some (Inr None, ComfyLogger_new (no_options\<lparr>p_tags := Some (Some [''T''])\<rparr>) [recorder 1],
         empty_world)"
  by (simp add: log_def ev)

end
